theory Spec2Isabelle
  imports Main "HOL-Library.AList" "HOL-Library.Multiset"
begin

section \<open>JavaScript values\<close>

text \<open>
  The payload fields \<open>username\<close>, \<open>room\<close>, \<open>message\<close> and \<open>pushToken\<close> come from
  the client by destructuring, so each is a string, \<open>null\<close>, or \<open>undefined\<close> when the
  field is missing; the payload itself is an object. A property that an object does not
  have reads as \<open>undefined\<close>, so \<open>Undefined\<close> stands for the absent property too.
  Equality of \<open>jsval\<close> is \<open>===\<close>.

  The model follows \<open>src/server.js\<close>. The second copy of the server among the sources
  (\<open>src/unnamed/part_001\<close>) has the same \<open>joinRoom\<close>, \<open>typing\<close> and \<open>disconnect\<close> handlers
  and the same \<open>sendMessage\<close> up to the broadcast, without push tokens: no
  \<open>registerPushToken\<close>, no \<open>pushToken\<close> property and no notifications.
\<close>

datatype jsval = Undefined | Null | Str string

text \<open>Truthiness, as \<open>if (v)\<close> and \<open>v || w\<close> test it: the empty string is falsy.\<close>

fun truthy :: "jsval \<Rightarrow> bool" where
  "truthy Undefined = False"
| "truthy Null = False"
| "truthy (Str s) = (s \<noteq> [])"

text \<open>The conversion a template literal \<open>`${v}`\<close> applies.\<close>

fun to_str :: "jsval \<Rightarrow> string" where
  "to_str Undefined = ''undefined''"
| "to_str Null = ''null''"
| "to_str (Str s) = s"

text \<open>\<open>v || null\<close>\<close>

definition or_null :: "jsval \<Rightarrow> jsval" where
  "or_null v = (if truthy v then v else Null)"

section \<open>Data\<close>

type_synonym sid = string

text \<open>The object stored under \<open>onlineUsers[socket.id]\<close> (server.js, lines 67-72).\<close>

record user =
  username :: jsval
  room :: jsval
  socketId :: sid
  pushToken :: jsval

text \<open>
  A \<open>Message\<close> document as the handlers build it: \<open>new Message({username, room,
  message, timestamp: new Date()})\<close>. The schema file is not among the sources; the
  document is taken to keep the four fields it is constructed with. Dates are
  milliseconds, a \<open>nat\<close>.
\<close>

record message =
  msg_username :: jsval
  msg_room :: jsval
  msg_message :: jsval
  msg_timestamp :: nat

text \<open>
  The socket object of one connection: the properties the handlers set on it
  (\<open>socket.pushToken\<close>, \<open>socket.username\<close>, \<open>socket.room\<close>) and the transport's own
  state, namely whether the connection is open and the set of rooms it has joined.
\<close>

record socket =
  connected :: bool
  sock_pushToken :: jsval
  sock_username :: jsval
  sock_room :: jsval
  rooms :: "jsval list"

text \<open>The push message pushed onto \<open>notifications\<close> (server.js, lines 137-143).\<close>

record notification =
  to :: jsval
  sound :: string
  title :: string
  body :: jsval
  data_room :: jsval
  data_username :: jsval

text \<open>
  The events the server emits. A \<open>message\<close> event carries \<open>username\<close>, \<open>message\<close>,
  \<open>timestamp\<close> and \<open>isSystem\<close>; chat messages are emitted without \<open>isSystem\<close>, which is
  \<open>False\<close> here.
\<close>

datatype event =
    ChatHistory "message list"
  | MessageEvent jsval jsval nat bool
  | OnlineUsers "user list"
  | UserTyping jsval bool

datatype target = ToSocket sid | ToRoom jsval | ToRoomExcept jsval sid

text \<open>One call of \<open>emit\<close>: whom it addressed, which connections it reached, what it sent.\<close>

record emission =
  target :: target
  recipients :: "sid list"
  payload :: event

text \<open>
  A line of \<open>console.log\<close> or \<open>console.error\<close>, its arguments joined by a blank; the
  pictograms that open the source's lines are left out.
\<close>

datatype console_line = Log string | Error string

text \<open>The outcome of an awaited promise: the rejection carries the error's text.\<close>

datatype outcome = Resolved | Rejected string

text \<open>
  The two functions of the Expo SDK that \<open>sendMessage\<close> calls. The SDK is a dependency,
  not part of the sources, so both are parameters of the model.
\<close>

record expo =
  isExpoPushToken :: "jsval \<Rightarrow> bool"
  chunkPushNotifications :: "notification list \<Rightarrow> notification list list"

text \<open>
  The state of the process.
  \<^item> \<open>heap\<close> holds the user objects; an address is an index. The arrays \<open>roomUsers\<close>
    hold references to these objects, and \<open>registerPushToken\<close> mutates them in place, so
    a snapshot taken before an \<open>await\<close> shows a later mutation of its objects.
  \<^item> \<open>onlineUsers\<close> is the global object of that name: socket id to user object, in
    insertion order, which is the order of \<open>Object.values\<close> (socket ids are not
    array indices).
  \<^item> \<open>sockets\<close> is the transport's table of socket objects.
  \<^item> \<open>db\<close> is the \<open>Message\<close> collection in insertion order.
  \<^item> \<open>clock\<close> is what \<open>new Date()\<close> reads.
  \<^item> \<open>emitted\<close>, \<open>sent\<close> and \<open>console\<close> record what was emitted to clients, handed to
    the push service, and written to the console.
\<close>

record state =
  heap :: "user list"
  onlineUsers :: "(sid \<times> nat) list"
  sockets :: "(sid \<times> socket) list"
  db :: "message list"
  clock :: nat
  emitted :: "emission list"
  sent :: "notification list list"
  console :: "console_line list"

definition init :: state where
  "init = \<lparr>heap = [], onlineUsers = [], sockets = [], db = [], clock = 0,
            emitted = [], sent = [], console = []\<rparr>"

section \<open>The transport\<close>

definition closed_socket :: socket where
  "closed_socket = \<lparr>connected = False, sock_pushToken = Undefined,
     sock_username = Undefined, sock_room = Undefined, rooms = []\<rparr>"

definition sock :: "state \<Rightarrow> sid \<Rightarrow> socket" where
  "sock s i = (case map_of (sockets s) i of Some k \<Rightarrow> k | None \<Rightarrow> closed_socket)"

definition upd_sock :: "sid \<Rightarrow> (socket \<Rightarrow> socket) \<Rightarrow> state \<Rightarrow> state" where
  "upd_sock i f s = s\<lparr>sockets := AList.update i (f (sock s i)) (sockets s)\<rparr>"

text \<open>The connections that are in a room, in the order of the table.\<close>

definition in_room :: "state \<Rightarrow> jsval \<Rightarrow> sid list" where
  "in_room s r = filter (\<lambda>i. r \<in> set (rooms (sock s i))) (map fst (sockets s))"

text \<open>\<open>socket.join(room)\<close>: rooms are a set, joining twice adds nothing.\<close>

definition socket_join :: "sid \<Rightarrow> jsval \<Rightarrow> state \<Rightarrow> state" where
  "socket_join i r s = upd_sock i (\<lambda>k. k\<lparr>rooms := List.insert r (rooms k)\<rparr>) s"

definition emit :: "target \<Rightarrow> sid list \<Rightarrow> event \<Rightarrow> state \<Rightarrow> state" where
  "emit t rs e s = s\<lparr>emitted := emitted s @ [\<lparr>target = t, recipients = rs, payload = e\<rparr>]\<rparr>"

text \<open>\<open>socket.emit(...)\<close>: to this connection only; dropped when it is closed.\<close>

definition socket_emit :: "sid \<Rightarrow> event \<Rightarrow> state \<Rightarrow> state" where
  "socket_emit i e s = emit (ToSocket i) (if connected (sock s i) then [i] else []) e s"

text \<open>\<open>io.to(room).emit(...)\<close>: to every connection in the room, the sender included.\<close>

definition io_to_emit :: "jsval \<Rightarrow> event \<Rightarrow> state \<Rightarrow> state" where
  "io_to_emit r e s = emit (ToRoom r) (in_room s r) e s"

text \<open>\<open>socket.to(room).emit(...)\<close>: to every connection in the room but this one.\<close>

definition socket_to_emit :: "sid \<Rightarrow> jsval \<Rightarrow> event \<Rightarrow> state \<Rightarrow> state" where
  "socket_to_emit i r e s = emit (ToRoomExcept r i) (filter (\<lambda>j. j \<noteq> i) (in_room s r)) e s"

definition console_log :: "string \<Rightarrow> state \<Rightarrow> state" where
  "console_log l s = s\<lparr>console := console s @ [Log l]\<rparr>"

definition console_error :: "string \<Rightarrow> state \<Rightarrow> state" where
  "console_error l s = s\<lparr>console := console s @ [Error l]\<rparr>"

section \<open>The registry\<close>

text \<open>\<open>Object.values(onlineUsers)\<close>: the user objects, as they are now.\<close>

definition Object_values :: "state \<Rightarrow> user list" where
  "Object_values s = map (\<lambda>a. heap s ! a) (map snd (onlineUsers s))"

text \<open>
  \<open>Object.values(onlineUsers).filter(user => user.room === room)\<close> as an array of
  references: the members of a room.
\<close>

definition room_refs :: "state \<Rightarrow> jsval \<Rightarrow> nat list" where
  "room_refs s r = filter (\<lambda>a. room (heap s ! a) = r) (map snd (onlineUsers s))"

text \<open>The objects an array of references shows when it is serialised.\<close>

definition deref :: "state \<Rightarrow> nat list \<Rightarrow> user list" where
  "deref s as = map (\<lambda>a. heap s ! a) as"

section \<open>The message store\<close>

text \<open>
  \<open>Message.find({ room }).sort({ timestamp: 1 }).limit(50)\<close>: the documents of the
  room, ascending by timestamp, the first fifty of them. Documents with equal timestamps
  keep their insertion order.
\<close>

definition Message_find :: "jsval \<Rightarrow> message list \<Rightarrow> message list" where
  "Message_find r ms = filter (\<lambda>m. msg_room m = r) ms"

definition sort_timestamp :: "message list \<Rightarrow> message list" where
  "sort_timestamp ms = sort_key msg_timestamp ms"

definition limit :: "nat \<Rightarrow> message list \<Rightarrow> message list" where
  "limit n ms = take n ms"

definition history_query :: "jsval \<Rightarrow> message list \<Rightarrow> message list" where
  "history_query r ms = limit 50 (sort_timestamp (Message_find r ms))"

section \<open>The handlers\<close>

text \<open>\<open>io.on('connection', ...)\<close>: a new socket is in the room named by its own id.\<close>

definition connection :: "sid \<Rightarrow> state \<Rightarrow> state" where
  "connection i s =
     console_log (''New user connected: '' @ i)
       (s\<lparr>sockets := AList.update i
            \<lparr>connected = True, sock_pushToken = Undefined, sock_username = Undefined,
             sock_room = Undefined, rooms = [Str i]\<rparr> (sockets s)\<rparr>)"

text \<open>\<open>registerPushToken\<close> (server.js, lines 51-57).\<close>

definition registerPushToken :: "sid \<Rightarrow> jsval \<Rightarrow> state \<Rightarrow> state" where
  "registerPushToken i pushToken' s =
     (let s1 = upd_sock i (\<lambda>k. k\<lparr>sock_pushToken := pushToken'\<rparr>) s;
          s2 = (case map_of (onlineUsers s1) i of
                  None \<Rightarrow> s1
                | Some a \<Rightarrow> s1\<lparr>heap := (heap s1)[a := (heap s1 ! a)\<lparr>pushToken := pushToken'\<rparr>]\<rparr>)
      in console_log (''Push token registered: '' @ to_str pushToken') s2)"

text \<open>
  \<open>joinRoom\<close> (server.js, lines 60-98) runs in two turns of the event loop, split at
  \<open>await Message.find(...)\<close>. The first turn returns the array \<open>roomUsers\<close>, which the
  second turn still holds.
\<close>

definition joinRoom_pre :: "sid \<Rightarrow> jsval \<Rightarrow> jsval \<Rightarrow> state \<Rightarrow> state \<times> nat list" where
  "joinRoom_pre i username' room' s =
     (let s1 = socket_join i room' s;
          s2 = upd_sock i (\<lambda>k. k\<lparr>sock_username := username', sock_room := room'\<rparr>) s1;
          a = length (heap s2);
          s3 = s2\<lparr>heap := heap s2 @
                      [\<lparr>username = username', room = room', socketId = i,
                        pushToken = or_null (sock_pushToken (sock s2 i))\<rparr>],
                  onlineUsers := AList.update i a (onlineUsers s2)\<rparr>;
          roomUsers = room_refs s3 room'
      in (s3, roomUsers))"

definition joinRoom_post ::
  "sid \<Rightarrow> jsval \<Rightarrow> jsval \<Rightarrow> nat list \<Rightarrow> outcome \<Rightarrow> state \<Rightarrow> state" where
  "joinRoom_post i username' room' roomUsers found s =
     (case found of
        Rejected err \<Rightarrow> console_error (''Error joining room: '' @ err) s
      | Resolved \<Rightarrow>
          (let messages = history_query room' (db s);
               s1 = socket_emit i (ChatHistory messages) s;
               s2 = io_to_emit room'
                      (MessageEvent (Str ''System'')
                         (Str (to_str username' @ '' has joined the room'')) (clock s1) True) s1;
               s3 = io_to_emit room' (OnlineUsers (deref s2 roomUsers)) s2
           in console_log (to_str username' @ '' joined room: '' @ to_str room') s3))"

text \<open>The handler when nothing else runs while it awaits.\<close>

definition joinRoom :: "sid \<Rightarrow> jsval \<Rightarrow> jsval \<Rightarrow> outcome \<Rightarrow> state \<Rightarrow> state" where
  "joinRoom i username' room' found s =
     (case joinRoom_pre i username' room' s of
        (s1, roomUsers) \<Rightarrow> joinRoom_post i username' room' roomUsers found s1)"




text \<open>
  \<open>sendMessage\<close> (server.js, lines 101-161). The first turn builds the document, reading
  the clock, and starts \<open>save()\<close>; the state does not change.
\<close>

definition sendMessage_pre :: "jsval \<Rightarrow> jsval \<Rightarrow> jsval \<Rightarrow> state \<Rightarrow> message" where
  "sendMessage_pre username' room' message' s =
     \<lparr>msg_username = username', msg_room = room', msg_message = message',
      msg_timestamp = clock s\<rparr>"

text \<open>The object pushed onto \<open>notifications\<close> for one user.\<close>

definition push_message :: "jsval \<Rightarrow> jsval \<Rightarrow> jsval \<Rightarrow> user \<Rightarrow> notification" where
  "push_message username' room' message' u =
     \<lparr>to = pushToken u, sound = ''default'',
      title = to_str username' @ '' in '' @ to_str room',
      body = message', data_room = room', data_username = username'\<rparr>"

text \<open>The loop \<open>for (let user of roomUsers)\<close> that fills \<open>notifications\<close>.\<close>

fun for_user ::
  "expo \<Rightarrow> jsval \<Rightarrow> jsval \<Rightarrow> jsval \<Rightarrow> user list \<Rightarrow> notification list \<Rightarrow> state
     \<Rightarrow> notification list \<times> state" where
  "for_user ex username' room' message' [] notifications s = (notifications, s)"
| "for_user ex username' room' message' (u # roomUsers) notifications s =
     (if \<not> isExpoPushToken ex (pushToken u)
      then for_user ex username' room' message' roomUsers notifications
             (console_error (''Invalid push token: '' @ to_str (pushToken u)) s)
      else for_user ex username' room' message' roomUsers
             (notifications @ [push_message username' room' message' u]) s)"

text \<open>
  The turn after \<open>await newMessage.save()\<close>, up to the loop over the chunks. It returns
  the chunks that the loop will send.
\<close>

definition sendMessage_post ::
  "expo \<Rightarrow> jsval \<Rightarrow> jsval \<Rightarrow> jsval \<Rightarrow> message \<Rightarrow> outcome \<Rightarrow> state
     \<Rightarrow> state \<times> notification list list" where
  "sendMessage_post ex username' room' message' newMessage saved s =
     (case saved of
        Rejected err \<Rightarrow> (console_error (''Error sending message: '' @ err) s, [])
      | Resolved \<Rightarrow>
          (let s1 = s\<lparr>db := db s @ [newMessage]\<rparr>;
               s2 = io_to_emit room'
                      (MessageEvent username' message' (msg_timestamp newMessage) False) s1;
               s3 = console_log (to_str username' @ '' sent message in '' @ to_str room'
                                  @ '': '' @ to_str message') s2;
               roomUsers = filter (\<lambda>u. room u = room' \<and> username u \<noteq> username'
                                        \<and> truthy (pushToken u)) (Object_values s3)
           in if length roomUsers > 0
              then (case for_user ex username' room' message' roomUsers [] s3 of
                      (notifications, s4) \<Rightarrow> (s4, chunkPushNotifications ex notifications))
              else (s3, [])))"

text \<open>
  One round of the loop over the chunks: the chunk is handed to the push service and
  the awaited result is logged; a rejection is caught inside the loop.
\<close>

definition send_chunk :: "notification list \<Rightarrow> outcome \<Rightarrow> state \<Rightarrow> state" where
  "send_chunk chunk pushed s =
     (let s1 = s\<lparr>sent := sent s @ [chunk]\<rparr>
      in case pushed of
           Resolved \<Rightarrow> console_log ''Push notifications sent!'' s1
         | Rejected err \<Rightarrow> console_error (''Error sending push notifications: '' @ err) s1)"

text \<open>\<open>typing\<close> (server.js, lines 164-166).\<close>

definition typing :: "sid \<Rightarrow> jsval \<Rightarrow> jsval \<Rightarrow> bool \<Rightarrow> state \<Rightarrow> state" where
  "typing i username' room' isTyping s = socket_to_emit i room' (UserTyping username' isTyping) s"

text \<open>\<open>disconnect\<close> (server.js, lines 169-194).\<close>

definition disconnect :: "sid \<Rightarrow> state \<Rightarrow> state" where
  "disconnect i s =
     (case map_of (onlineUsers s) i of
        None \<Rightarrow> s
      | Some a \<Rightarrow>
          (let username' = username (heap s ! a);
               room' = room (heap s ! a);
               s1 = s\<lparr>onlineUsers := AList.delete i (onlineUsers s)\<rparr>;
               roomUsers = room_refs s1 room';
               s2 = io_to_emit room'
                      (MessageEvent (Str ''System'')
                         (Str (to_str username' @ '' has left the room'')) (clock s1) True) s1;
               s3 = io_to_emit room' (OnlineUsers (deref s2 roomUsers)) s2
           in console_log (to_str username' @ '' disconnected from '' @ to_str room') s3))"

text \<open>
  The transport closes a connection: the socket leaves all its rooms, then the
  \<open>disconnect\<close> handler runs.
\<close>

definition close_connection :: "sid \<Rightarrow> state \<Rightarrow> state" where
  "close_connection i s =
     disconnect i (upd_sock i (\<lambda>k. k\<lparr>connected := False, rooms := []\<rparr>) s)"

section \<open>Runs of the event loop\<close>

text \<open>
  One turn of the event loop. A socket id names one connection only, and a client
  event is handled only while its connection is open. The client events of a run carry
  an object, whose properties the action lists. The turns that resume a handler after an
  \<open>await\<close> carry the variables the handler holds across it.
\<close>

datatype action =
    Connect sid
  | RegisterPushToken sid jsval
  | JoinRoom sid jsval jsval
  | JoinRoomResume sid jsval jsval "nat list" outcome
  | SendMessageResume jsval jsval jsval message outcome
  | SendChunk "notification list" outcome
  | Typing sid jsval jsval bool
  | Disconnect sid
  | Tick nat

fun step :: "expo \<Rightarrow> action \<Rightarrow> state \<Rightarrow> state" where
  "step ex (Connect i) s = (if map_of (sockets s) i = None then connection i s else s)"
| "step ex (RegisterPushToken i t) s =
     (if connected (sock s i) then registerPushToken i t s else s)"
| "step ex (JoinRoom i u r) s =
     (if connected (sock s i) then fst (joinRoom_pre i u r s) else s)"
| "step ex (JoinRoomResume i u r roomUsers found) s = joinRoom_post i u r roomUsers found s"
| "step ex (SendMessageResume u r m newMessage saved) s =
     fst (sendMessage_post ex u r m newMessage saved s)"
| "step ex (SendChunk chunk pushed) s = send_chunk chunk pushed s"
| "step ex (Typing i u r b) s = (if connected (sock s i) then typing i u r b s else s)"
| "step ex (Disconnect i) s = (if connected (sock s i) then close_connection i s else s)"
| "step ex (Tick d) s = s\<lparr>clock := clock s + d\<rparr>"

fun run :: "expo \<Rightarrow> action list \<Rightarrow> state \<Rightarrow> state" where
  "run ex [] s = s"
| "run ex (a # as) s = run ex as (step ex a s)"

section \<open>The properties as the specification words them\<close>



text \<open>The timestamp an event carries, when it is a \<open>message\<close> event.\<close>

fun timestamp_of :: "event \<Rightarrow> nat option" where
  "timestamp_of (MessageEvent u m t b) = Some t"
| "timestamp_of e = None"


section \<open>Predicates on states and emissions\<close>

text \<open>
  Every emission of the list that is addressed to room \<open>A\<close> has connection \<open>i\<close> among its
  recipients.
\<close>

definition reaches :: "sid \<Rightarrow> jsval \<Rightarrow> emission list \<Rightarrow> bool" where
  "reaches i A ems = list_all (\<lambda>em. target em \<noteq> ToRoom A \<or> i \<in> set (recipients em)) ems"

text \<open>The registry's session object of connection \<open>i\<close> exists and names room \<open>B\<close>.\<close>

definition records :: "state \<Rightarrow> sid \<Rightarrow> jsval \<Rightarrow> bool" where
  "records s i B =
     (case map_of (onlineUsers s) i of
        None \<Rightarrow> False
      | Some a \<Rightarrow> a < length (heap s) \<and> room (heap s ! a) = B)"

section \<open>Example runs\<close>

text \<open>
  A stand-in for the SDK in the examples: a token is valid when it starts with
  \<open>ExponentPushToken[\<close>, and notifications are sent as one chunk.
\<close>

definition valid_prefix :: "jsval \<Rightarrow> bool" where
  "valid_prefix v = (case v of Str t \<Rightarrow> take 18 t = ''ExponentPushToken['' | _ \<Rightarrow> False)"

definition one_chunk :: "notification list \<Rightarrow> notification list list" where
  "one_chunk ns = (if ns = [] then [] else [ns])"

definition sample_expo :: expo where
  "sample_expo = \<lparr>isExpoPushToken = valid_prefix, chunkPushNotifications = one_chunk\<rparr>"

definition alice :: jsval where "alice = Str ''alice''"
definition bob :: jsval where "bob = Str ''bob''"
definition lobby :: jsval where "lobby = Str ''lobby''"
definition den :: jsval where "den = Str ''den''"

text \<open>Two connections join the lobby; the second joins while the first awaits.\<close>

definition two_open :: state where
  "two_open = connection ''b'' (connection ''a'' init)"

definition race_a :: "state \<times> nat list" where
  "race_a = joinRoom_pre ''a'' alice lobby two_open"

definition race_b :: "state \<times> nat list" where
  "race_b = joinRoom_pre ''b'' bob lobby (fst race_a)"

definition race_end :: state where
  "race_end = joinRoom_post ''a'' alice lobby (snd race_a) Resolved (fst race_b)"

text \<open>A message is sent at time 100 and its \<open>save()\<close> completes at time 105.\<close>

definition send_start :: state where
  "send_start = joinRoom ''a'' alice lobby Resolved (connection ''a'' (init\<lparr>clock := 100\<rparr>))"

definition send_doc :: message where
  "send_doc = sendMessage_pre alice lobby (Str ''hi'') send_start"

definition send_saved :: state where
  "send_saved = step sample_expo (Tick 5) send_start"

definition send_end :: state where
  "send_end = fst (sendMessage_post sample_expo alice lobby (Str ''hi'') send_doc Resolved send_saved)"






text \<open>A join whose history fetch fails.\<close>

definition join_failed :: state where
  "join_failed = joinRoom ''a'' alice lobby (Rejected ''StoreUnavailable'') (connection ''a'' init)"





text \<open>
  A connection joins the lobby, then the den; then a message is sent to the lobby.
\<close>

definition switch_end :: state where
  "switch_end = run sample_expo
     [JoinRoomResume ''a'' alice den [1] Resolved,
      SendMessageResume bob lobby (Str ''hi'') send_doc Resolved]
     (step sample_expo (JoinRoom ''a'' alice den)
        (run sample_expo [JoinRoomResume ''a'' alice lobby [0] Resolved]
           (step sample_expo (JoinRoom ''a'' alice lobby) (connection ''a'' init))))"

section \<open>Auxiliary facts\<close>

lemmas out_defs = emit_def socket_emit_def io_to_emit_def socket_to_emit_def
  console_log_def console_error_def

lemmas ex_defs = alice_def bob_def lobby_def den_def sample_expo_def valid_prefix_def
  one_chunk_def

lemmas run_defs = connection_def init_def joinRoom_def joinRoom_pre_def joinRoom_post_def
  socket_join_def upd_sock_def sock_def room_refs_def deref_def out_defs registerPushToken_def
  in_room_def history_query_def Message_find_def sort_timestamp_def limit_def or_null_def
  Let_def

text \<open>What the helpers read does not depend on the fields they do not mention.\<close>

lemma Object_values_frame [simp]:
  "Object_values (s\<lparr>db := d\<rparr>) = Object_values s"
  "Object_values (s\<lparr>emitted := e\<rparr>) = Object_values s"
  "Object_values (s\<lparr>console := c\<rparr>) = Object_values s"
  "Object_values (s\<lparr>sent := n\<rparr>) = Object_values s"
  "Object_values (s\<lparr>clock := t\<rparr>) = Object_values s"
  "Object_values (s\<lparr>sockets := k\<rparr>) = Object_values s"
  by (simp_all add: Object_values_def)

lemma sock_frame [simp]:
  "sock (s\<lparr>db := d\<rparr>) = sock s"
  "sock (s\<lparr>emitted := e\<rparr>) = sock s"
  "sock (s\<lparr>console := c\<rparr>) = sock s"
  "sock (s\<lparr>sent := n\<rparr>) = sock s"
  "sock (s\<lparr>clock := t\<rparr>) = sock s"
  "sock (s\<lparr>heap := h\<rparr>) = sock s"
  "sock (s\<lparr>onlineUsers := ou\<rparr>) = sock s"
  by (simp_all add: sock_def fun_eq_iff)

lemma in_room_frame [simp]:
  "in_room (s\<lparr>db := d\<rparr>) = in_room s"
  "in_room (s\<lparr>emitted := e\<rparr>) = in_room s"
  "in_room (s\<lparr>console := c\<rparr>) = in_room s"
  "in_room (s\<lparr>sent := n\<rparr>) = in_room s"
  "in_room (s\<lparr>clock := t\<rparr>) = in_room s"
  "in_room (s\<lparr>heap := h\<rparr>) = in_room s"
  "in_room (s\<lparr>onlineUsers := ou\<rparr>) = in_room s"
  by (simp_all add: in_room_def fun_eq_iff)

text \<open>The loop over \<open>roomUsers\<close> in closed form.\<close>

lemma for_user_eq:
  "for_user ex u r m us ns s =
     (ns @ map (push_message u r m) (filter (\<lambda>v. isExpoPushToken ex (pushToken v)) us),
      s\<lparr>console := console s @
           map (\<lambda>v. Error (''Invalid push token: '' @ to_str (pushToken v)))
             (filter (\<lambda>v. \<not> isExpoPushToken ex (pushToken v)) us)\<rparr>)"
  by (induction us arbitrary: ns s) (simp_all add: console_error_def)

text \<open>The turn after a successful \<open>save()\<close> in closed form.\<close>

lemma sendMessage_post_saved:
  assumes "cands = filter (\<lambda>v. room v = r \<and> username v \<noteq> u \<and> truthy (pushToken v))
                     (Object_values s)"
  shows "sendMessage_post ex u r m d Resolved s =
      (s\<lparr>db := db s @ [d],
         emitted := emitted s @ [\<lparr>target = ToRoom r, recipients = in_room s r,
                                  payload = MessageEvent u m (msg_timestamp d) False\<rparr>],
         console := console s
            @ [Log (to_str u @ '' sent message in '' @ to_str r @ '': '' @ to_str m)]
            @ map (\<lambda>v. Error (''Invalid push token: '' @ to_str (pushToken v)))
                (filter (\<lambda>v. \<not> isExpoPushToken ex (pushToken v)) cands)\<rparr>,
       if cands = [] then []
       else chunkPushNotifications ex
              (map (push_message u r m) (filter (\<lambda>v. isExpoPushToken ex (pushToken v)) cands)))"
proof (cases "cands = []")
  case True
  then have "filter (\<lambda>v. room v = r \<and> username v \<noteq> u \<and> truthy (pushToken v))
               (Object_values s) = []"
    using assms by simp
  then show ?thesis
    using True by (simp add: sendMessage_post_def Let_def out_defs)
next
  case False
  then have "filter (\<lambda>v. room v = r \<and> username v \<noteq> u \<and> truthy (pushToken v))
               (Object_values s) \<noteq> []"
    using assms by simp
  then show ?thesis
    using False assms
    by (simp add: sendMessage_post_def Let_def out_defs for_user_eq del: filter_filter)
qed

section \<open>Disconnecting\<close>

text \<open>
  C9. When no session is registered for a connection, its \<open>disconnect\<close> handler returns
  the state as it was: the registry and the user objects are unchanged, nothing is
  emitted, nothing is logged and nothing is raised. The same holds for the registry,
  the emissions and the console when the transport closes the connection.
\<close>

theorem disconnect_never_joined_noop:
  assumes "map_of (onlineUsers s) i = None"
  shows "disconnect i s = s \<and>
         onlineUsers (close_connection i s) = onlineUsers s \<and>
         heap (close_connection i s) = heap s \<and>
         emitted (close_connection i s) = emitted s \<and>
         console (close_connection i s) = console s"
  using assms by (simp add: disconnect_def close_connection_def upd_sock_def)

theorem disconnect_never_joined_noop_witness:
  "map_of (onlineUsers (connection ''a'' init)) ''a'' = None \<and>
   disconnect ''a'' (connection ''a'' init) = connection ''a'' init \<and>
   emitted (close_connection ''a'' (connection ''a'' init)) = []"
  using disconnect_never_joined_noop [of "connection ''a'' init" "''a''"]
  by (simp add: connection_def init_def console_log_def)

section \<open>Sending a message\<close>

text \<open>
  C3. When \<open>save()\<close> rejects, the turn that resumes \<open>sendMessage\<close> emits nothing, leaves
  the registry, the user objects and the sockets as they were, stores no document, hands
  nothing to the push service and leaves no chunk to send; it writes one error line to
  the console.
\<close>

theorem sendMessage_save_fails:
  "emitted (fst (sendMessage_post ex u r m (sendMessage_pre u r m s0) (Rejected err) s)) = emitted s \<and>
   onlineUsers (fst (sendMessage_post ex u r m (sendMessage_pre u r m s0) (Rejected err) s)) = onlineUsers s \<and>
   heap (fst (sendMessage_post ex u r m (sendMessage_pre u r m s0) (Rejected err) s)) = heap s \<and>
   sockets (fst (sendMessage_post ex u r m (sendMessage_pre u r m s0) (Rejected err) s)) = sockets s \<and>
   db (fst (sendMessage_post ex u r m (sendMessage_pre u r m s0) (Rejected err) s)) = db s \<and>
   sent (fst (sendMessage_post ex u r m (sendMessage_pre u r m s0) (Rejected err) s)) = sent s \<and>
   snd (sendMessage_post ex u r m (sendMessage_pre u r m s0) (Rejected err) s) = [] \<and>
   console (fst (sendMessage_post ex u r m (sendMessage_pre u r m s0) (Rejected err) s))
     = console s @ [Error (''Error sending message: '' @ err)]"
  by (simp add: sendMessage_post_def console_error_def)

text \<open>
  C2, as the code has it. The \<open>message\<close> event that a successful \<open>sendMessage\<close> emits
  carries the timestamp of the stored document, and that is the server's clock as the
  handler read it when it built the document, before \<open>save()\<close> was called. Whatever
  happens between that turn (state \<open>s0\<close>) and the turn in which \<open>save()\<close> has resolved
  (state \<open>s\<close>), and whatever the client sent, the timestamp is \<open>clock s0\<close>.
\<close>

theorem sendMessage_timestamp_is_construction_time:
  "emitted (fst (sendMessage_post ex u r m (sendMessage_pre u r m s0) Resolved s))
     = emitted s @ [\<lparr>target = ToRoom r, recipients = in_room s r,
                      payload = MessageEvent u m (clock s0) False\<rparr>] \<and>
   db (fst (sendMessage_post ex u r m (sendMessage_pre u r m s0) Resolved s))
     = db s @ [sendMessage_pre u r m s0] \<and>
   msg_timestamp (sendMessage_pre u r m s0) = clock s0"
  by (simp add: sendMessage_post_saved [OF refl] sendMessage_pre_def)

text \<open>
  C2 as stated fails: the handler reads the clock at 100, \<open>save()\<close> completes at 105,
  when the document enters the store, and the event carries 100.
\<close>

theorem sendMessage_timestamp_counterexample:
  "timestamp_of (payload (last (emitted send_end))) = Some (clock send_start) \<and>
   clock send_start = 100 \<and> clock send_saved = 105 \<and>
   db send_saved = [] \<and> db send_end = [send_doc] \<and>
   timestamp_of (payload (last (emitted send_end))) \<noteq> Some (clock send_saved)"
  by (simp add: send_end_def send_saved_def send_doc_def send_start_def
      sendMessage_post_saved [OF refl] sendMessage_pre_def Object_values_def ex_defs run_defs)

section \<open>Joining a room\<close>

text \<open>The two turns of \<open>joinRoom\<close> in closed form.\<close>

lemma sock_update_same [simp]: "sock (s\<lparr>sockets := AList.update i k al\<rparr>) i = k"
  by (simp add: sock_def update_conv')


lemma joinRoom_pre_eq:
  "joinRoom_pre i u r s =
     (s\<lparr>sockets := AList.update i
            ((sock s i)\<lparr>rooms := List.insert r (rooms (sock s i)),
                        sock_username := u, sock_room := r\<rparr>) (sockets s),
        heap := heap s @ [\<lparr>username = u, room = r, socketId = i,
                    pushToken = or_null (sock_pushToken (sock s i))\<rparr>],
        onlineUsers := AList.update i (length (heap s)) (onlineUsers s)\<rparr>,
      filter (\<lambda>a. room ((heap s @ [\<lparr>username = u, room = r, socketId = i,
                    pushToken = or_null (sock_pushToken (sock s i))\<rparr>]) ! a) = r)
        (map snd (AList.update i (length (heap s)) (onlineUsers s))))"
  by (simp add: joinRoom_pre_def Let_def socket_join_def room_refs_def upd_sock_def)

lemma joinRoom_post_rejected:
  "joinRoom_post i u r us (Rejected err) s = s\<lparr>console := console s @ [Error (''Error joining room: '' @ err)]\<rparr>"
  by (simp add: joinRoom_post_def console_error_def)

lemma joinRoom_post_resolved:
  "joinRoom_post i u r us Resolved s =
     s\<lparr>emitted := emitted s @
          [\<lparr>target = ToSocket i, recipients = (if connected (sock s i) then [i] else []),
            payload = ChatHistory (history_query r (db s))\<rparr>,
           \<lparr>target = ToRoom r, recipients = in_room s r,
            payload = MessageEvent (Str ''System'') (Str (to_str u @ '' has joined the room''))
                        (clock s) True\<rparr>,
           \<lparr>target = ToRoom r, recipients = in_room s r, payload = OnlineUsers (deref s us)\<rparr>],
       console := console s @ [Log (to_str u @ '' joined room: '' @ to_str r)]\<rparr>"
  by (simp add: joinRoom_post_def out_defs Let_def deref_def)

text \<open>
  C5, as the code has it. When the history fetch rejects, the \<open>catch\<close> of the handler
  takes over: the registry entry written before the \<open>await\<close> stands and the connection
  stays in the transport's room, the error is logged, and nothing at all is emitted:
  no \<open>chatHistory\<close>, no system message and no \<open>onlineUsers\<close>.
\<close>

theorem joinRoom_fetch_fails:
  "map_of (onlineUsers (joinRoom i u r (Rejected err) s)) i = Some (length (heap s)) \<and>
   heap (joinRoom i u r (Rejected err) s)
     = heap s @ [\<lparr>username = u, room = r, socketId = i,
                  pushToken = or_null (sock_pushToken (sock s i))\<rparr>] \<and>
   r \<in> set (rooms (sock (joinRoom i u r (Rejected err) s) i)) \<and>
   emitted (joinRoom i u r (Rejected err) s) = emitted s \<and>
   console (joinRoom i u r (Rejected err) s)
     = console s @ [Error (''Error joining room: '' @ err)]"
  by (simp add: joinRoom_def joinRoom_pre_eq joinRoom_post_rejected update_conv')

text \<open>
  C5 as stated fails: after a join whose fetch is rejected the session is registered,
  yet no event has been emitted.
\<close>

theorem joinRoom_fetch_fails_counterexample:
  "emitted join_failed = [] \<and> onlineUsers join_failed = [(''a'', 0)] \<and>
   heap join_failed = [\<lparr>username = alice, room = lobby, socketId = ''a'', pushToken = Null\<rparr>] \<and>
   console join_failed = [Log ''New user connected: a'', Error ''Error joining room: StoreUnavailable'']"
  by (simp add: join_failed_def joinRoom_def joinRoom_pre_eq joinRoom_post_rejected connection_def init_def console_log_def sock_def or_null_def)




section \<open>The online users\<close>

text \<open>The \<open>disconnect\<close> handler of a registered connection in closed form.\<close>

lemma disconnect_joined:
  assumes "map_of (onlineUsers s) i = Some a"
  shows "disconnect i s =
     s\<lparr>onlineUsers := AList.delete i (onlineUsers s),
       emitted := emitted s @
         [\<lparr>target = ToRoom (room (heap s ! a)), recipients = in_room s (room (heap s ! a)),
           payload = MessageEvent (Str ''System'')
                       (Str (to_str (username (heap s ! a)) @ '' has left the room''))
                       (clock s) True\<rparr>,
          \<lparr>target = ToRoom (room (heap s ! a)), recipients = in_room s (room (heap s ! a)),
           payload = OnlineUsers
                       (deref s (room_refs (s\<lparr>onlineUsers := AList.delete i (onlineUsers s)\<rparr>)
                                   (room (heap s ! a))))\<rparr>],
       console := console s @
         [Log (to_str (username (heap s ! a)) @ '' disconnected from ''
               @ to_str (room (heap s ! a)))]\<rparr>"
  using assms by (simp add: disconnect_def Let_def out_defs deref_def)

lemma deref_frame [simp]:
  "deref (s\<lparr>db := d\<rparr>) = deref s"
  "deref (s\<lparr>emitted := e\<rparr>) = deref s"
  "deref (s\<lparr>console := c\<rparr>) = deref s"
  "deref (s\<lparr>sent := n\<rparr>) = deref s"
  "deref (s\<lparr>clock := t\<rparr>) = deref s"
  "deref (s\<lparr>sockets := k\<rparr>) = deref s"
  "deref (s\<lparr>onlineUsers := ou\<rparr>) = deref s"
  by (simp_all add: deref_def fun_eq_iff)

lemma room_refs_frame [simp]:
  "room_refs (s\<lparr>db := d\<rparr>) = room_refs s"
  "room_refs (s\<lparr>emitted := e\<rparr>) = room_refs s"
  "room_refs (s\<lparr>console := c\<rparr>) = room_refs s"
  "room_refs (s\<lparr>sent := n\<rparr>) = room_refs s"
  "room_refs (s\<lparr>clock := t\<rparr>) = room_refs s"
  "room_refs (s\<lparr>sockets := k\<rparr>) = room_refs s"
  by (simp_all add: room_refs_def fun_eq_iff)







text \<open>
  C1 at the failing interleaving. Connection \<open>a\<close> joins the lobby and awaits its history;
  meanwhile \<open>b\<close> joins the lobby; then the handler of \<open>a\<close> resumes. The \<open>onlineUsers\<close> event
  it sends, which reaches both connections, lists only \<open>alice\<close>, while the registry
  holds \<open>alice\<close> and \<open>bob\<close> for the lobby at that instant.
\<close>

theorem joinRoom_race_stale_onlineUsers:
  "payload (last (emitted race_end))
     = OnlineUsers [\<lparr>username = alice, room = lobby, socketId = ''a'', pushToken = Null\<rparr>] \<and>
   deref race_end (room_refs race_end lobby)
     = [\<lparr>username = alice, room = lobby, socketId = ''a'', pushToken = Null\<rparr>,
        \<lparr>username = bob, room = lobby, socketId = ''b'', pushToken = Null\<rparr>] \<and>
   recipients (last (emitted race_end)) = [''a'', ''b'']"
  by (simp add: race_end_def race_b_def race_a_def two_open_def joinRoom_pre_eq joinRoom_post_resolved
       connection_def init_def console_log_def or_null_def deref_def room_refs_def in_room_def
       ex_defs sock_def)

section \<open>The chat history\<close>











section \<open>Push notifications\<close>




section \<open>Switching rooms\<close>

text \<open>The socket of a connection after each handler.\<close>

lemma sock_update:
  "sock (s\<lparr>sockets := AList.update j k (sockets s)\<rparr>) i = (if i = j then k else sock s i)"
  by (simp add: sock_def update_conv')

lemma sock_closed: "map_of (sockets s) i = None \<Longrightarrow> sock s i = closed_socket"
  by (simp add: sock_def)

lemma connected_in_table: "connected (sock s i) \<Longrightarrow> map_of (sockets s) i \<noteq> None"
  by (auto simp add: sock_def closed_socket_def split: option.splits)

lemma in_room_iff: "i \<in> set (in_room s A) \<longleftrightarrow> A \<in> set (rooms (sock s i))"
proof
  assume "i \<in> set (in_room s A)"
  then show "A \<in> set (rooms (sock s i))" by (simp add: in_room_def)
next
  assume a: "A \<in> set (rooms (sock s i))"
  then have "map_of (sockets s) i \<noteq> None"
    by (auto simp add: sock_def closed_socket_def split: option.splits)
  then have "i \<in> fst ` set (sockets s)"
    by (simp add: map_of_eq_None_iff)
  with a show "i \<in> set (in_room s A)" by (simp add: in_room_def)
qed

lemma sockets_joinRoom_post [simp]: "sockets (joinRoom_post i u r us found s) = sockets s"
  by (cases found) (simp_all add: joinRoom_post_resolved joinRoom_post_rejected)

lemma sockets_sendMessage_post [simp]:
  "sockets (fst (sendMessage_post ex u r m d saved s)) = sockets s"
  by (cases saved) (simp_all add: sendMessage_post_saved [OF refl], simp add: sendMessage_post_def console_error_def)

lemma sockets_send_chunk [simp]: "sockets (send_chunk c pushed s) = sockets s"
  by (cases pushed) (simp_all add: send_chunk_def out_defs)

lemma sockets_typing [simp]: "sockets (typing i u r b s) = sockets s"
  by (simp add: typing_def out_defs)

lemma sockets_disconnect [simp]: "sockets (disconnect i s) = sockets s"
proof (cases "map_of (onlineUsers s) i")
  case None
  then show ?thesis by (simp add: disconnect_def)
next
  case (Some a)
  then show ?thesis by (simp add: disconnect_joined)
qed

lemma sock_eqI: "sockets s' = sockets s \<Longrightarrow> sock s' i = sock s i"
  by (simp add: sock_def)

lemma sock_registerPushToken:
  "sock (registerPushToken j t s) i = (if i = j then (sock s j)\<lparr>sock_pushToken := t\<rparr> else sock s i)"
  by (simp add: registerPushToken_def Let_def upd_sock_def console_log_def sock_update
        split: option.split)

lemma sock_joinRoom_pre:
  "sock (fst (joinRoom_pre j u r s)) i =
     (if i = j then (sock s j)\<lparr>rooms := List.insert r (rooms (sock s j)),
                                sock_username := u, sock_room := r\<rparr>
      else sock s i)"
  by (simp add: joinRoom_pre_eq sock_update)

lemma sock_connection:
  "sock (connection j s) i =
     (if i = j then \<lparr>connected = True, sock_pushToken = Undefined, sock_username = Undefined,
                     sock_room = Undefined, rooms = [Str j]\<rparr>
      else sock s i)"
  by (simp add: connection_def console_log_def sock_update)

lemma sock_close_connection:
  "i \<noteq> j \<Longrightarrow> sock (close_connection j s) i = sock s i"
proof -
  assume "i \<noteq> j"
  have "sock (close_connection j s) i
          = sock (upd_sock j (\<lambda>k. k\<lparr>connected := False, rooms := []\<rparr>) s) i"
    unfolding close_connection_def by (rule sock_eqI) simp
  also have "\<dots> = sock s i"
    using \<open>i \<noteq> j\<close> by (simp add: upd_sock_def sock_update)
  finally show ?thesis .
qed

lemma step_keeps_rooms:
  assumes "a \<noteq> Disconnect i" and "connected (sock s i)"
  shows "connected (sock (step ex a s) i) \<and>
         set (rooms (sock s i)) \<subseteq> set (rooms (sock (step ex a s) i))"
proof (cases a)
  case (Connect j)
  then show ?thesis
    using assms connected_in_table [of s i] by (auto simp add: sock_connection)
next
  case (RegisterPushToken j t)
  then show ?thesis using assms by (simp add: sock_registerPushToken)
next
  case (JoinRoom j u r)
  then show ?thesis using assms by (auto simp add: sock_joinRoom_pre)
next
  case (JoinRoomResume j u r us found)
  then show ?thesis using assms by (simp add: sock_eqI [OF sockets_joinRoom_post])
next
  case (SendMessageResume u r m d saved)
  then show ?thesis using assms by (simp add: sock_eqI [OF sockets_sendMessage_post])
next
  case (SendChunk c pushed)
  then show ?thesis using assms by (simp add: sock_eqI [OF sockets_send_chunk])
next
  case (Typing j u r b)
  then show ?thesis using assms by (simp add: sock_eqI [OF sockets_typing])
next
  case (Disconnect j)
  then show ?thesis using assms by (simp add: sock_close_connection)
next
  case (Tick d)
  then show ?thesis using assms by simp
qed

lemma reaches_simps [simp]:
  "reaches i A []"
  "reaches i A (em # ems) \<longleftrightarrow> (target em = ToRoom A \<longrightarrow> i \<in> set (recipients em)) \<and> reaches i A ems"
  "reaches i A (xs @ ys) \<longleftrightarrow> reaches i A xs \<and> reaches i A ys"
  by (auto simp add: reaches_def)

lemma step_emits:
  assumes "a \<noteq> Disconnect i" and "A \<in> set (rooms (sock s i))"
  shows "\<exists>new. emitted (step ex a s) = emitted s @ new \<and> reaches i A new"
proof (cases a)
  case (Connect j)
  then show ?thesis by (simp add: connection_def console_log_def)
next
  case (RegisterPushToken j t)
  then show ?thesis
    by (simp add: registerPushToken_def Let_def upd_sock_def console_log_def split: option.split)
next
  case (JoinRoom j u r)
  then show ?thesis by (simp add: joinRoom_pre_eq)
next
  case (JoinRoomResume j u r us found)
  then show ?thesis
    using assms(2)
    by (cases found) (simp_all add: joinRoom_post_resolved joinRoom_post_rejected in_room_iff)
next
  case (SendMessageResume u r m d saved)
  show ?thesis
  proof (cases saved)
    case Resolved
    then show ?thesis
      using assms(2) SendMessageResume
      by (simp add: sendMessage_post_saved [OF refl] in_room_iff)
  next
    case (Rejected err)
    then show ?thesis
      using SendMessageResume by (simp add: sendMessage_post_def console_error_def)
  qed
next
  case (SendChunk c pushed)
  then show ?thesis by (cases pushed) (simp_all add: send_chunk_def out_defs)
next
  case (Typing j u r b)
  then show ?thesis by (simp add: typing_def out_defs)
next
  case (Disconnect j)
  with assms(1) have ij: "i \<noteq> j" by simp
  let ?s' = "upd_sock j (\<lambda>k. k\<lparr>connected := False, rooms := []\<rparr>) s"
  have A: "A \<in> set (rooms (sock ?s' i))"
    using ij assms(2) by (simp add: upd_sock_def sock_update)
  have e: "emitted ?s' = emitted s" by (simp add: upd_sock_def)
  have "\<exists>new. emitted (disconnect j ?s') = emitted ?s' @ new \<and> reaches i A new"
  proof (cases "map_of (onlineUsers ?s') j")
    case None
    then show ?thesis by (simp add: disconnect_def)
  next
    case (Some a)
    then show ?thesis using A by (simp add: disconnect_joined in_room_iff)
  qed
  then show ?thesis
    using Disconnect e by (simp add: close_connection_def)
next
  case (Tick d)
  then show ?thesis by simp
qed

lemma run_keeps_rooms:
  assumes "Disconnect i \<notin> set as" and "connected (sock s i)" and "A \<in> set (rooms (sock s i))"
  shows "connected (sock (run ex as s) i) \<and>
         set (rooms (sock s i)) \<subseteq> set (rooms (sock (run ex as s) i)) \<and>
         (\<exists>new. emitted (run ex as s) = emitted s @ new \<and> reaches i A new)"
  using assms
proof (induction as arbitrary: s)
  case Nil
  then show ?case by simp
next
  case (Cons a as)
  from Cons.prems have a: "a \<noteq> Disconnect i" and as: "Disconnect i \<notin> set as" by auto
  from step_keeps_rooms [OF a Cons.prems(2), of ex]
  have c: "connected (sock (step ex a s) i)"
    and sub: "set (rooms (sock s i)) \<subseteq> set (rooms (sock (step ex a s) i))" by simp_all
  from sub Cons.prems(3) have A': "A \<in> set (rooms (sock (step ex a s) i))" by blast
  from step_emits [OF a Cons.prems(3), of ex]
  obtain new1 where n1: "emitted (step ex a s) = emitted s @ new1" "reaches i A new1" by blast
  from Cons.IH [OF as c A']
  obtain new2 where ih: "connected (sock (run ex as (step ex a s)) i)"
      "set (rooms (sock (step ex a s) i)) \<subseteq> set (rooms (sock (run ex as (step ex a s)) i))"
      "emitted (run ex as (step ex a s)) = emitted (step ex a s) @ new2" "reaches i A new2"
    by blast
  have "emitted (run ex (a # as) s) = emitted s @ (new1 @ new2) \<and> reaches i A (new1 @ new2)"
    using n1 ih by simp
  then have "\<exists>new. emitted (run ex (a # as) s) = emitted s @ new \<and> reaches i A new" by blast
  with ih sub show ?case by auto
qed

lemma records_frame:
  "heap s' = heap s \<Longrightarrow> onlineUsers s' = onlineUsers s \<Longrightarrow> records s' i B = records s i B"
  by (simp add: records_def split: option.splits)

lemma registry_sendMessage_post:
  "heap (fst (sendMessage_post ex u r m d saved s)) = heap s \<and>
   onlineUsers (fst (sendMessage_post ex u r m d saved s)) = onlineUsers s"
proof (cases saved)
  case Resolved
  then show ?thesis by (simp add: sendMessage_post_saved [OF refl])
next
  case (Rejected err)
  then show ?thesis by (simp add: sendMessage_post_def console_error_def)
qed

lemma records_joinRoom_pre: "records (fst (joinRoom_pre i u B s)) i B"
  by (simp add: records_def joinRoom_pre_eq update_conv')

lemma room_heap_update:
  "a < length h \<Longrightarrow> room (h[b := (h ! b)\<lparr>pushToken := t\<rparr>] ! a) = room (h ! a)"
  by (cases "a = b") simp_all

lemma step_keeps_record:
  assumes "a \<noteq> Disconnect i" and "\<forall>u r. a \<noteq> JoinRoom i u r" and "records s i B"
  shows "records (step ex a s) i B"
proof (cases a)
  case (Connect j)
  then show ?thesis using assms(3)
    by (simp add: records_def connection_def console_log_def split: option.splits)
next
  case (RegisterPushToken j t)
  then show ?thesis using assms(3)
    by (auto simp add: registerPushToken_def Let_def upd_sock_def console_log_def records_def
          room_heap_update split: option.splits)
next
  case (JoinRoom j u r)
  with assms(2) have "i \<noteq> j" by auto
  then show ?thesis using assms(3) JoinRoom
    by (auto simp add: records_def joinRoom_pre_eq update_conv' nth_append split: option.splits)
next
  case (JoinRoomResume j u r us found)
  then show ?thesis using assms(3)
    by (cases found)
       (simp_all add: joinRoom_post_resolved joinRoom_post_rejected records_def
          split: option.splits)
next
  case (SendMessageResume u r m d saved)
  then show ?thesis using assms(3)
    using registry_sendMessage_post [of ex u r m d saved s]
    by (simp add: records_frame [of "fst (sendMessage_post ex u r m d saved s)" s])
next
  case (SendChunk c pushed)
  then show ?thesis using assms(3)
    by (cases pushed) (simp_all add: send_chunk_def out_defs records_def split: option.splits)
next
  case (Typing j u r b)
  then show ?thesis using assms(3)
    by (simp add: typing_def out_defs records_def split: option.splits)
next
  case (Disconnect j)
  with assms(1) have ij: "i \<noteq> j" by simp
  let ?s' = "upd_sock j (\<lambda>k. k\<lparr>connected := False, rooms := []\<rparr>) s"
  have r: "records ?s' i B"
    using assms(3) by (simp add: records_def upd_sock_def split: option.splits)
  have "records (disconnect j ?s') i B"
  proof (cases "map_of (onlineUsers ?s') j")
    case None
    then show ?thesis using r by (simp add: disconnect_def)
  next
    case (Some a)
    then show ?thesis using r ij
      by (simp add: disconnect_joined records_def delete_conv' split: option.splits)
  qed
  then show ?thesis using Disconnect assms(3) by (simp add: close_connection_def)
next
  case (Tick d)
  then show ?thesis using assms(3) by (simp add: records_def split: option.splits)
qed

lemma run_keeps_record:
  assumes "Disconnect i \<notin> set as" and "\<forall>u r. JoinRoom i u r \<notin> set as" and "records s i B"
  shows "records (run ex as s) i B"
  using assms
proof (induction as arbitrary: s)
  case Nil
  then show ?case by simp
next
  case (Cons a as)
  have "records (step ex a s) i B"
    using Cons.prems by (intro step_keeps_record) auto
  then show ?case using Cons by simp
qed

text \<open>
  C10. A connection \<open>i\<close> joins room \<open>A\<close> and later room \<open>B\<close>, and is not disconnected. Then
  the set of rooms its socket is in only grows: it contains \<open>A\<close> and \<open>B\<close> at the end; every
  emission addressed to room \<open>A\<close> after the first join has \<open>i\<close> among its recipients, and
  so has any further one; and as long as \<open>i\<close> does not join again, the registry's session
  object of \<open>i\<close> names room \<open>B\<close>. The turns of other connections and the resumed handlers
  are arbitrary.
\<close>

theorem room_switch_keeps_old_room:
  assumes "connected (sock s0 i)"
    and "Disconnect i \<notin> set as1" and "Disconnect i \<notin> set as2"
    and "\<forall>u r. JoinRoom i u r \<notin> set as2"
    and "sA = step ex (JoinRoom i u A) s0"
    and "sB = step ex (JoinRoom i u' B) (run ex as1 sA)"
    and "s = run ex as2 sB"
  shows "set (rooms (sock sA i)) \<subseteq> set (rooms (sock s i)) \<and>
         A \<in> set (rooms (sock s i)) \<and> B \<in> set (rooms (sock s i)) \<and>
         (\<forall>em \<in> set (drop (length (emitted sA)) (emitted s)).
            target em = ToRoom A \<longrightarrow> i \<in> set (recipients em)) \<and>
         i \<in> set (recipients (last (emitted (io_to_emit A e s)))) \<and>
         (\<exists>a. map_of (onlineUsers s) i = Some a \<and> room (heap s ! a) = B)"
proof -
  have cA: "connected (sock sA i)" and AA: "A \<in> set (rooms (sock sA i))"
    using assms(1,5) by (simp_all add: sock_joinRoom_pre)
  from run_keeps_rooms [OF assms(2) cA AA, of ex]
  obtain n1 where 1: "connected (sock (run ex as1 sA) i)"
      "set (rooms (sock sA i)) \<subseteq> set (rooms (sock (run ex as1 sA) i))"
      "emitted (run ex as1 sA) = emitted sA @ n1" "reaches i A n1"
    by blast
  have sub2: "set (rooms (sock (run ex as1 sA) i)) \<subseteq> set (rooms (sock sB i))"
    and cB: "connected (sock sB i)" and BB: "B \<in> set (rooms (sock sB i))"
    and eB: "emitted sB = emitted (run ex as1 sA)"
    using 1(1) assms(6) by (auto simp add: sock_joinRoom_pre joinRoom_pre_eq)
  have AB: "A \<in> set (rooms (sock sB i))" using AA 1(2) sub2 by blast
  from run_keeps_rooms [OF assms(3) cB AB, of ex]
  obtain n2 where 2: "set (rooms (sock sB i)) \<subseteq> set (rooms (sock s i))"
      "emitted s = emitted sB @ n2" "reaches i A n2"
    using assms(7) by blast
  have g: "set (rooms (sock sA i)) \<subseteq> set (rooms (sock s i))"
    using 1(2) sub2 2(1) by blast
  have As: "A \<in> set (rooms (sock s i))" using AB 2(1) by blast
  have Bs: "B \<in> set (rooms (sock s i))" using BB 2(1) by blast
  have "drop (length (emitted sA)) (emitted s) = n1 @ n2"
    using 1(3) 2(2) eB by simp
  then have em: "\<forall>em \<in> set (drop (length (emitted sA)) (emitted s)).
            target em = ToRoom A \<longrightarrow> i \<in> set (recipients em)"
    using 1(4) 2(3) by (auto simp add: reaches_def list_all_iff)
  have l: "i \<in> set (recipients (last (emitted (io_to_emit A e s))))"
    using As by (simp add: out_defs in_room_iff)
  have "records sB i B"
    using 1(1) assms(6) by (simp add: records_joinRoom_pre)
  then have "records s i B"
    using assms(3,4,7) by (simp add: run_keeps_record)
  then have r: "\<exists>a. map_of (onlineUsers s) i = Some a \<and> room (heap s ! a) = B"
    by (auto simp add: records_def split: option.splits)
  from g As Bs em l r show ?thesis by blast
qed

theorem room_switch_keeps_old_room_witness:
  "connected (sock (connection ''a'' init) ''a'') \<and>
   target (last (emitted switch_end)) = ToRoom lobby \<and>
   recipients (last (emitted switch_end)) = [''a''] \<and>
   rooms (sock switch_end ''a'') = [den, lobby, Str ''a''] \<and>
   Object_values switch_end
     = [\<lparr>username = alice, room = den, socketId = ''a'', pushToken = Null\<rparr>]"
  using room_switch_keeps_old_room
    [of "connection ''a'' init" "''a''" "[JoinRoomResume ''a'' alice lobby [0] Resolved]"
        "[JoinRoomResume ''a'' alice den [1] Resolved,
          SendMessageResume bob lobby (Str ''hi'') send_doc Resolved]"
        "step sample_expo (JoinRoom ''a'' alice lobby) (connection ''a'' init)"
        sample_expo alice lobby
        "step sample_expo (JoinRoom ''a'' alice den)
           (run sample_expo [JoinRoomResume ''a'' alice lobby [0] Resolved]
              (step sample_expo (JoinRoom ''a'' alice lobby) (connection ''a'' init)))"
        alice den switch_end]
  by (simp add: switch_end_def joinRoom_pre_eq joinRoom_post_resolved
        sendMessage_post_saved [OF refl] connection_def init_def console_log_def or_null_def
        sock_def in_room_def Object_values_def ex_defs)

end
